theory Spec2Isabelle
  imports Complex_Main "HOL-Library.Word"
begin

section \<open>PeopleCounterUDP: packet parsing, UDP receiver and UDP sender\<close>

text \<open>
  The plugin consists of three pieces of C++: the Blueprint library function
  \<^verbatim>\<open>UPeopleCounterJsonLib::ParsePeopleCountPacket\<close>, the component
  \<^verbatim>\<open>UUDPJsonReceiverComponent\<close> and the component \<^verbatim>\<open>UUDPJsonSenderComponent\<close>.
  All three call into the engine (JSON reader and DOM, sockets, task graph, string
  conversion). The engine is not part of the plugin, so every engine service is a
  parameter of the model: a record of functions that the plugin code calls.

  Conventions: \<^verbatim>\<open>int32\<close> is \<^typ>\<open>32 word\<close> (read as two's complement by
  \<^const>\<open>sint\<close>); \<^verbatim>\<open>double\<close> values are only stored and handed on, never computed
  with, and are represented by the real number they denote; \<^verbatim>\<open>FString\<close> is
  \<^typ>\<open>string\<close>; \<^verbatim>\<open>TMap\<close> is a map; a pointer that may be \<^verbatim>\<open>nullptr\<close> is an
  \<^typ>\<open>'a option\<close>. \<^verbatim>\<open>UE_LOG\<close> lines have no effect on any value and are left out.
\<close>

type_synonym int32 = "32 word"
type_synonym byte = "8 word"

subsection \<open>The JSON DOM and the engine's JSON services\<close>

text \<open>
  \<^verbatim>\<open>FJsonValue\<close> with its \<^verbatim>\<open>EJson\<close> type tag. An \<^verbatim>\<open>FJsonObject\<close> is a table from field
  names to values (a \<^verbatim>\<open>TMap\<close>): a map from strings to values.
\<close>

datatype json =
    JNull
  | JBoolean bool
  | JNumber real
  | JString string
  | JArray "json list"
  | JObject "string \<rightharpoonup> json"

text \<open>
  What the plugin takes from the engine's JSON module:
  \<^item> \<open>Deserialize\<close>: the reader and \<^verbatim>\<open>FJsonSerializer::Deserialize\<close>, from text to a DOM
    value; \<open>None\<close> when the text is rejected.
  \<^item> \<open>coerce_string\<close>, \<open>coerce_number\<close>, \<open>coerce_int32\<close>: what \<^verbatim>\<open>TryGetString\<close> and
    \<^verbatim>\<open>TryGetNumber\<close> answer on a value that is not of the requested type (the engine
    converts some of them); \<open>None\<close> when the call returns \<^verbatim>\<open>false\<close>.
  \<^item> \<open>narrow_int32\<close>: what \<^verbatim>\<open>TryGetNumber(int32&)\<close> answers on a JSON number.
  A string is read from a string value as it is and a \<^verbatim>\<open>double\<close> from a number value
  as it is; an array is read from an array value only.
\<close>

record json_engine =
  Deserialize :: "string \<Rightarrow> json option"
  coerce_string :: "json \<Rightarrow> string option"
  coerce_number :: "json \<Rightarrow> real option"
  coerce_int32 :: "json \<Rightarrow> int32 option"
  narrow_int32 :: "real \<Rightarrow> int32 option"

fun TryGetString :: "json_engine \<Rightarrow> json \<Rightarrow> string option" where
  "TryGetString E (JString s) = Some s"
| "TryGetString E v = coerce_string E v"

fun TryGetNumber :: "json_engine \<Rightarrow> json \<Rightarrow> real option" where
  "TryGetNumber E (JNumber x) = Some x"
| "TryGetNumber E v = coerce_number E v"

fun TryGetNumber_int32 :: "json_engine \<Rightarrow> json \<Rightarrow> int32 option" where
  "TryGetNumber_int32 E (JNumber x) = narrow_int32 E x"
| "TryGetNumber_int32 E v = coerce_int32 E v"

fun TryGetArray :: "json \<Rightarrow> json list option" where
  "TryGetArray (JArray vs) = Some vs"
| "TryGetArray v = None"

text \<open>
  The \<^verbatim>\<open>TryGet...Field\<close> members of \<^verbatim>\<open>FJsonObject\<close>: look the field up, then ask the
  value. A missing field answers \<^verbatim>\<open>false\<close> (\<open>None\<close>) whatever the engine converts.
\<close>

definition TryGetStringField :: "json_engine \<Rightarrow> (string \<rightharpoonup> json) \<Rightarrow> string \<Rightarrow> string option" where
  "TryGetStringField E Obj FieldName =
     (case Obj FieldName of None \<Rightarrow> None | Some v \<Rightarrow> TryGetString E v)"

definition TryGetNumberField :: "json_engine \<Rightarrow> (string \<rightharpoonup> json) \<Rightarrow> string \<Rightarrow> real option" where
  "TryGetNumberField E Obj FieldName =
     (case Obj FieldName of None \<Rightarrow> None | Some v \<Rightarrow> TryGetNumber E v)"

definition TryGetNumberField_int32 :: "json_engine \<Rightarrow> (string \<rightharpoonup> json) \<Rightarrow> string \<Rightarrow> int32 option" where
  "TryGetNumberField_int32 E Obj FieldName =
     (case Obj FieldName of None \<Rightarrow> None | Some v \<Rightarrow> TryGetNumber_int32 E v)"

definition TryGetArrayField :: "(string \<rightharpoonup> json) \<Rightarrow> string \<Rightarrow> json list option" where
  "TryGetArrayField Obj FieldName =
     (case Obj FieldName of None \<Rightarrow> None | Some v \<Rightarrow> TryGetArray v)"

text \<open>
  A \<^verbatim>\<open>TryGet\<close> call writes its out-parameter only when it returns \<^verbatim>\<open>true\<close>; the
  plugin ignores the returned flag, so the variable keeps its previous value otherwise.
\<close>

definition assign_if :: "'a option \<Rightarrow> 'a \<Rightarrow> 'a" where
  "assign_if r old = (case r of None \<Rightarrow> old | Some v \<Rightarrow> v)"

subsection \<open>\<^verbatim>\<open>ParsePeopleCountPacket\<close>\<close>

text \<open>
  \<^verbatim>\<open>OutSensors\<close> is a \<^verbatim>\<open>TMap<FString, int32>\<close>. The engine compares \<^verbatim>\<open>FString\<close> keys
  without regard to the case of the letters A to Z (both its \<^verbatim>\<open>operator==\<close> and its
  hash), and \<^verbatim>\<open>TMap::Add\<close> replaces the pair whose key compares equal to the new key by
  the new pair. The map is kept as a map from the stored spellings to the values;
  \<open>TMap_Add\<close> stores the new pair and drops a pair stored under another spelling of
  the same key.
\<close>

definition lower_code :: "char \<Rightarrow> nat" where
  "lower_code c = (let n = of_char c in if 65 \<le> n \<and> n \<le> 90 then n + 32 else n)"

definition same_key :: "string \<Rightarrow> string \<Rightarrow> bool" where
  "same_key a b = (map lower_code a = map lower_code b)"

definition TMap_Add :: "(string \<rightharpoonup> 'v) \<Rightarrow> string \<Rightarrow> 'v \<Rightarrow> (string \<rightharpoonup> 'v)" where
  "TMap_Add m k v = (\<lambda>k'. if k' = k then Some v else if same_key k' k then None else m k')"

text \<open>
  The body of the range-based \<^verbatim>\<open>for\<close> over the \<^verbatim>\<open>sensors\<close> array: an element that is
  not an object is passed over (\<^verbatim>\<open>continue\<close>); otherwise \<^verbatim>\<open>Id\<close> starts empty and
  \<^verbatim>\<open>Count\<close> starts at 0, both are read permissively, and the pair is added to the
  map with \<^verbatim>\<open>TMap::Add\<close> when \<^verbatim>\<open>Id\<close> is not empty.
  Elements of a deserialized array are never null pointers, so the \<^verbatim>\<open>IsValid\<close> tests
  of the loop have no branch of their own.
\<close>

definition sensor_entry :: "json_engine \<Rightarrow> (string \<rightharpoonup> int32) \<Rightarrow> json \<Rightarrow> (string \<rightharpoonup> int32)" where
  "sensor_entry E OutSensors V =
     (case V of
        JObject Obj \<Rightarrow>
          (let Id = assign_if (TryGetStringField E Obj ''id'') '''';
               Count = assign_if (TryGetNumberField_int32 E Obj ''count'') 0
           in if Id \<noteq> '''' then TMap_Add OutSensors Id Count else OutSensors)
      | _ \<Rightarrow> OutSensors)"

fun sensors_loop :: "json_engine \<Rightarrow> (string \<rightharpoonup> int32) \<Rightarrow> json list \<Rightarrow> (string \<rightharpoonup> int32)" where
  "sensors_loop E OutSensors [] = OutSensors"
| "sensors_loop E OutSensors (V # Vs) = sensors_loop E (sensor_entry E OutSensors V) Vs"

text \<open>
  The variables of the function: the two out-parameters and the two locals
  \<^verbatim>\<open>Schema\<close> and \<^verbatim>\<open>Type\<close>, which are read and then dropped.
\<close>

record parse_vars =
  OutSensors :: "string \<rightharpoonup> int32"
  OutTimestamp :: real
  Schema :: string
  Type :: string

text \<open>
  \<^verbatim>\<open>Root\<close> is a pointer to an \<^verbatim>\<open>FJsonObject\<close>: it is valid exactly when the text
  deserialized to an object. The function takes the previous contents of the
  out-parameters and returns the flag with the variables at the \<^verbatim>\<open>return\<close>.
\<close>

definition ParsePeopleCountPacket_vars ::
  "json_engine \<Rightarrow> string \<Rightarrow> (string \<rightharpoonup> int32) \<Rightarrow> real \<Rightarrow> bool \<times> parse_vars" where
  "ParsePeopleCountPacket_vars E JsonString OutSensors0 OutTimestamp0 =
     (let v0 = \<lparr>OutSensors = OutSensors0, OutTimestamp = OutTimestamp0, Schema = '''', Type = ''''\<rparr>;
          v1 = v0\<lparr>OutSensors := Map.empty\<rparr>;
          v2 = v1\<lparr>OutTimestamp := 0\<rparr>
      in case Deserialize E JsonString of
           Some (JObject Root) \<Rightarrow>
             (let v3 = v2\<lparr>Schema := assign_if (TryGetStringField E Root ''schema'') (Schema v2)\<rparr>;
                  v4 = v3\<lparr>Type := assign_if (TryGetStringField E Root ''type'') (Type v3)\<rparr>;
                  v5 = v4\<lparr>OutTimestamp := assign_if (TryGetNumberField E Root ''timestamp'') (OutTimestamp v4)\<rparr>
              in case TryGetArrayField Root ''sensors'' of
                   Some SensorsArray \<Rightarrow>
                     (True, v5\<lparr>OutSensors := sensors_loop E (OutSensors v5) SensorsArray\<rparr>)
                 | None \<Rightarrow> (True, v5))
         | _ \<Rightarrow> (False, v2))"

text \<open>What the caller sees: the returned flag and the two out-parameters.\<close>

definition ParsePeopleCountPacket ::
  "json_engine \<Rightarrow> string \<Rightarrow> (string \<rightharpoonup> int32) \<Rightarrow> real \<Rightarrow> bool \<times> (string \<rightharpoonup> int32) \<times> real" where
  "ParsePeopleCountPacket E JsonString OutSensors0 OutTimestamp0 =
     (case ParsePeopleCountPacket_vars E JsonString OutSensors0 OutTimestamp0 of
        (ok, v) \<Rightarrow> (ok, OutSensors v, OutTimestamp v))"

subsection \<open>Sockets, threads and the game-thread queue\<close>

text \<open>
  What the two components take from the engine's socket, thread and string modules:
  \<^item> \<open>SetIp\<close>: the validity flag that \<^verbatim>\<open>FInternetAddr::SetIp\<close> reports for a host text;
  \<^item> \<open>BuildListenSocket\<close>, \<open>BuildSendSocket\<close>: the socket that the
    \<^verbatim>\<open>FUdpSocketBuilder\<close> chain yields, \<open>None\<close> for \<^verbatim>\<open>nullptr\<close>;
  \<^item> \<open>SendTo\<close>: the flag that \<^verbatim>\<open>FSocket::SendTo\<close> returns together with the count it
    stores in \<^verbatim>\<open>BytesSent\<close>;
  \<^item> \<open>TCHARToUTF8\<close>, \<open>UTF8ToTCHAR\<close>: the two string converters.
\<close>

type_synonym handle = nat

record net_engine =
  SetIp :: "string \<Rightarrow> bool"
  BuildListenSocket :: "string \<Rightarrow> int32 \<Rightarrow> handle option"
  BuildSendSocket :: "handle option"
  SendTo :: "handle \<Rightarrow> byte list \<Rightarrow> string \<Rightarrow> int32 \<Rightarrow> bool \<times> int32"
  TCHARToUTF8 :: "string \<Rightarrow> byte list"
  UTF8ToTCHAR :: "byte list \<Rightarrow> string"

text \<open>
  \<^verbatim>\<open>new FUdpSocketReceiver(ListenSocket, FTimespan::FromMilliseconds(2), name)\<close>: the
  object that owns the background receive loop on a socket.
\<close>

datatype FUdpSocketReceiver = FUdpSocketReceiver "handle option" nat string

text \<open>
  Everything outside the components that their code acts on: the sockets that exist,
  the receiver objects whose loops run, the tasks queued for the game thread by
  \<^verbatim>\<open>AsyncTask(ENamedThreads::GameThread, ...)\<close> (each is the captured \<^verbatim>\<open>JsonStr\<close> of a
  pending \<^verbatim>\<open>OnJsonReceived.Broadcast\<close>), the broadcasts made so far, and the calls made
  to \<^verbatim>\<open>SendTo\<close> (socket, bytes, host, port).
\<close>

record world =
  Sockets :: "handle list"
  Receivers :: "FUdpSocketReceiver list"
  GameThreadTasks :: "string list"
  Broadcasts :: "string list"
  SendToCalls :: "(handle \<times> byte list \<times> string \<times> int32) list"

subsection \<open>\<^verbatim>\<open>UUDPJsonReceiverComponent\<close>\<close>

record receiver =
  ListenAddress :: string
  ListenPort :: int32
  bAutoStart :: bool
  bLogPackets :: bool
  SocketReceiver :: "FUdpSocketReceiver option"
  ListenSocket :: "handle option"
  bRunning :: bool

definition Receiver_CreateSocket :: "net_engine \<Rightarrow> receiver \<times> world \<Rightarrow> bool \<times> receiver \<times> world" where
  "Receiver_CreateSocket N rw =
     (case rw of (r, w) \<Rightarrow>
        if ListenSocket r \<noteq> None then (True, r, w)
        else if \<not> SetIp N (ListenAddress r) then (False, r, w)
        else (case BuildListenSocket N (ListenAddress r) (ListenPort r) of
                None \<Rightarrow> (False, r\<lparr>ListenSocket := None\<rparr>, w)
              | Some h \<Rightarrow> (True, r\<lparr>ListenSocket := Some h\<rparr>, w\<lparr>Sockets := h # Sockets w\<rparr>)))"

definition Receiver_DestroySocket :: "receiver \<times> world \<Rightarrow> receiver \<times> world" where
  "Receiver_DestroySocket rw =
     (case rw of (r, w) \<Rightarrow>
        (let (r1, w1) =
               (case SocketReceiver r of
                  Some R \<Rightarrow> (r\<lparr>SocketReceiver := None\<rparr>, w\<lparr>Receivers := remove1 R (Receivers w)\<rparr>)
                | None \<Rightarrow> (r, w))
         in case ListenSocket r1 of
              Some h \<Rightarrow> (r1\<lparr>ListenSocket := None\<rparr>, w1\<lparr>Sockets := remove1 h (Sockets w1)\<rparr>)
            | None \<Rightarrow> (r1, w1)))"

definition StartReceiver :: "net_engine \<Rightarrow> receiver \<times> world \<Rightarrow> bool \<times> receiver \<times> world" where
  "StartReceiver N rw =
     (case rw of (r, w) \<Rightarrow>
        if bRunning r then (True, r, w)
        else (case Receiver_CreateSocket N (r, w) of
                (False, r1, w1) \<Rightarrow> (False, r1, w1)
              | (True, r1, w1) \<Rightarrow>
                  (let R = FUdpSocketReceiver (ListenSocket r1) 2 ''PeopleCounterUDP_RX''
                   in (True,
                       r1\<lparr>SocketReceiver := Some R, bRunning := True\<rparr>,
                       w1\<lparr>Receivers := R # Receivers w1\<rparr>))))"

definition StopReceiver :: "receiver \<times> world \<Rightarrow> receiver \<times> world" where
  "StopReceiver rw =
     (case rw of (r, w) \<Rightarrow>
        if \<not> bRunning r then (r, w)
        else Receiver_DestroySocket (r\<lparr>bRunning := False\<rparr>, w))"

definition Receiver_BeginPlay :: "net_engine \<Rightarrow> receiver \<times> world \<Rightarrow> receiver \<times> world" where
  "Receiver_BeginPlay N rw = (if bAutoStart (fst rw) then snd (StartReceiver N rw) else rw)"

definition Receiver_EndPlay :: "receiver \<times> world \<Rightarrow> receiver \<times> world" where
  "Receiver_EndPlay rw = StopReceiver rw"

text \<open>
  \<^verbatim>\<open>HandlePacket\<close> is the delegate that the receive loop calls with each datagram. It
  copies the bytes, converts them to an \<^verbatim>\<open>FString\<close> and queues one task for the game
  thread whose body is \<^verbatim>\<open>OnJsonReceived.Broadcast(JsonStr)\<close>. Nothing else is done with
  the text: the function has no other branch.
\<close>

definition HandlePacket :: "net_engine \<Rightarrow> byte list \<Rightarrow> receiver \<times> world \<Rightarrow> receiver \<times> world" where
  "HandlePacket N Data rw =
     (case rw of (r, w) \<Rightarrow>
        (let Bytes = Data;
             JsonStr = UTF8ToTCHAR N Bytes
         in (r, w\<lparr>GameThreadTasks := GameThreadTasks w @ [JsonStr]\<rparr>)))"

text \<open>
  The game thread runs its queued tasks in order; running one is the \<^verbatim>\<open>Broadcast\<close> of
  its captured text.
\<close>

fun run_tasks :: "string list \<Rightarrow> string list \<Rightarrow> string list" where
  "run_tasks fired [] = fired"
| "run_tasks fired (JsonStr # pending) = run_tasks (fired @ [JsonStr]) pending"

definition ProcessGameThreadTasks :: "world \<Rightarrow> world" where
  "ProcessGameThreadTasks w =
     w\<lparr>Broadcasts := run_tasks (Broadcasts w) (GameThreadTasks w), GameThreadTasks := []\<rparr>"

text \<open>
  A run of the receiver is a sequence of events: the owner calls \<^verbatim>\<open>StartReceiver\<close> or
  \<^verbatim>\<open>StopReceiver\<close>, a datagram arrives at the port, or the game thread works off its
  queue. A datagram reaches \<^verbatim>\<open>HandlePacket\<close> only while a receiver object exists.
\<close>

datatype event = CallStart | CallStop | Datagram "byte list" | GameThreadRuns

fun step :: "net_engine \<Rightarrow> event \<Rightarrow> receiver \<times> world \<Rightarrow> receiver \<times> world" where
  "step N CallStart rw = snd (StartReceiver N rw)"
| "step N CallStop rw = StopReceiver rw"
| "step N (Datagram Data) rw =
     (if SocketReceiver (fst rw) \<noteq> None then HandlePacket N Data rw else rw)"
| "step N GameThreadRuns rw = (fst rw, ProcessGameThreadTasks (snd rw))"

fun run :: "net_engine \<Rightarrow> event list \<Rightarrow> receiver \<times> world \<Rightarrow> receiver \<times> world" where
  "run N [] rw = rw"
| "run N (e # es) rw = run N es (step N e rw)"

subsection \<open>\<^verbatim>\<open>UUDPJsonSenderComponent\<close>\<close>

record sender =
  TargetHost :: string
  TargetPort :: int32
  bAutoConnect :: bool
  SendSocket :: "handle option"
  bConnected :: bool

definition Sender_CreateSocket :: "net_engine \<Rightarrow> sender \<times> world \<Rightarrow> bool \<times> sender \<times> world" where
  "Sender_CreateSocket N sw =
     (case sw of (s, w) \<Rightarrow>
        if SendSocket s \<noteq> None then (True, s, w)
        else if \<not> SetIp N (TargetHost s) then (False, s, w)
        else (case BuildSendSocket N of
                None \<Rightarrow> (False, s\<lparr>SendSocket := None\<rparr>, w)
              | Some h \<Rightarrow>
                  (True, s\<lparr>SendSocket := Some h, bConnected := True\<rparr>, w\<lparr>Sockets := h # Sockets w\<rparr>)))"

definition Sender_DestroySocket :: "sender \<times> world \<Rightarrow> sender \<times> world" where
  "Sender_DestroySocket sw =
     (case sw of (s, w) \<Rightarrow>
        (case SendSocket s of
           Some h \<Rightarrow> (s\<lparr>SendSocket := None, bConnected := False\<rparr>, w\<lparr>Sockets := remove1 h (Sockets w)\<rparr>)
         | None \<Rightarrow> (s\<lparr>bConnected := False\<rparr>, w)))"

definition Connect :: "net_engine \<Rightarrow> sender \<times> world \<Rightarrow> bool \<times> sender \<times> world" where
  "Connect N sw = Sender_CreateSocket N sw"

definition Disconnect :: "sender \<times> world \<Rightarrow> sender \<times> world" where
  "Disconnect sw = Sender_DestroySocket sw"

text \<open>
  \<^verbatim>\<open>SendJsonString\<close>: make sure there is a socket, resolve \<^verbatim>\<open>TargetHost\<close> again,
  convert the text and call \<^verbatim>\<open>SendTo\<close> once on the socket. The value returned is
  the flag of \<^verbatim>\<open>SendTo\<close>; \<^verbatim>\<open>BytesSent\<close> is written by the call and not read
  afterwards. \<^verbatim>\<open>SendSocket\<close> is dereferenced without a test; it cannot be null at that
  point (lemma \<open>Sender_CreateSocket_socket\<close>), and the model gives that branch \<open>False\<close>.
\<close>

definition SendJsonString :: "net_engine \<Rightarrow> string \<Rightarrow> sender \<times> world \<Rightarrow> bool \<times> sender \<times> world" where
  "SendJsonString N JsonString sw =
     (case (if SendSocket (fst sw) = None then Sender_CreateSocket N sw else (True, sw)) of
        (False, s1, w1) \<Rightarrow> (False, s1, w1)
      | (True, s1, w1) \<Rightarrow>
          if \<not> SetIp N (TargetHost s1) then (False, s1, w1)
          else (case SendSocket s1 of
                  None \<Rightarrow> (False, s1, w1)
                | Some h \<Rightarrow>
                    (let Conv = TCHARToUTF8 N JsonString;
                         (bOK, BytesSent) = SendTo N h Conv (TargetHost s1) (TargetPort s1)
                     in (bOK, s1,
                         w1\<lparr>SendToCalls := SendToCalls w1 @ [(h, Conv, TargetHost s1, TargetPort s1)]\<rparr>))))"

text \<open>\<^verbatim>\<open>Conv.Length()\<close>, the \<^verbatim>\<open>int32\<close> count of bytes that the call asks \<^verbatim>\<open>SendTo\<close> to send.\<close>

definition Conv_Length :: "byte list \<Rightarrow> int32" where
  "Conv_Length Conv = word_of_nat (length Conv)"

definition Sender_BeginPlay :: "net_engine \<Rightarrow> sender \<times> world \<Rightarrow> sender \<times> world" where
  "Sender_BeginPlay N sw = (if bAutoConnect (fst sw) then snd (Connect N sw) else sw)"

definition Sender_EndPlay :: "sender \<times> world \<Rightarrow> sender \<times> world" where
  "Sender_EndPlay sw = Disconnect sw"

subsection \<open>The command encoder of the specification\<close>

text \<open>
  Modelled from the spec: the command type and the encoder \<^verbatim>\<open>Encode\<close>. The C++ of the
  plugin has neither: \<^verbatim>\<open>SendJsonString\<close> is handed the finished text by its caller.
  The specification gives six command variants and, for each, the JSON object it is
  written as: a \<^verbatim>\<open>cmd\<close> string field first, then the field of the variant
  (\<^verbatim>\<open>seconds\<close>, \<^verbatim>\<open>conf\<close>, \<^verbatim>\<open>enabled\<close>), with no white space. How a number is written
  is fixed by the specification only through its examples, so the writer of numbers
  is a parameter. The text is ASCII, and its UTF-8 byte sequence is the sequence of
  its character codes.
\<close>

datatype Command =
    Capture
  | SetInterval real
  | ListSensors
  | SetConfidence real
  | ToggleDepthInput bool
  | Shutdown

text \<open>Modelled from the spec: the value of the \<^verbatim>\<open>cmd\<close> field of each variant (wire table).\<close>

fun cmd_name :: "Command \<Rightarrow> string" where
  "cmd_name Capture = ''capture''"
| "cmd_name (SetInterval seconds) = ''set_interval''"
| "cmd_name ListSensors = ''list_sensors''"
| "cmd_name (SetConfidence conf) = ''set_conf''"
| "cmd_name (ToggleDepthInput enabled) = ''toggle_depth_input''"
| "cmd_name Shutdown = ''shutdown''"

text \<open>
  Modelled from the spec: the fields that follow \<^verbatim>\<open>cmd\<close>, as name and JSON text of the
  value (wire table); a boolean is written \<^verbatim>\<open>true\<close> or \<^verbatim>\<open>false\<close>.
\<close>

fun cmd_fields :: "(real \<Rightarrow> string) \<Rightarrow> Command \<Rightarrow> (string \<times> string) list" where
  "cmd_fields number_text Capture = []"
| "cmd_fields number_text (SetInterval seconds) = [(''seconds'', number_text seconds)]"
| "cmd_fields number_text ListSensors = []"
| "cmd_fields number_text (SetConfidence conf) = [(''conf'', number_text conf)]"
| "cmd_fields number_text (ToggleDepthInput enabled) =
     [(''enabled'', if enabled then ''true'' else ''false'')]"
| "cmd_fields number_text Shutdown = []"

text \<open>
  Modelled from the spec: the JSON object text of a command, the \<^verbatim>\<open>cmd\<close> field first and
  each further field after a comma, and \<^verbatim>\<open>Encode\<close>, its UTF-8 byte sequence.
\<close>

definition field_text :: "string \<times> string \<Rightarrow> string" where
  \<open>field_text f = '',"'' @ fst f @ ''":'' @ snd f\<close>

definition command_text :: "(real \<Rightarrow> string) \<Rightarrow> Command \<Rightarrow> string" where
  \<open>command_text number_text c =
     ''{"cmd":"'' @ cmd_name c @ ''"'' @ concat (map field_text (cmd_fields number_text c)) @ ''}''\<close>

definition Encode :: "(real \<Rightarrow> string) \<Rightarrow> Command \<Rightarrow> byte list" where
  "Encode number_text c = map (\<lambda>ch. word_of_nat (of_char ch)) (command_text number_text c)"

text \<open>A writer of numbers for the examples: the three numbers of the README's command list.\<close>

definition sample_number_text :: "real \<Rightarrow> string" where
  "sample_number_text x =
     (if x = 2 then ''2.0'' else if x = 1 then ''1.0'' else if x = 3 / 5 then ''0.6'' else ''0.0'')"

subsection \<open>Initial values and a sample engine\<close>

text \<open>The member initialisers of the two component classes, and a world with nothing in it.\<close>

definition receiver_init :: receiver where
  "receiver_init =
     \<lparr>ListenAddress = ''0.0.0.0'', ListenPort = 7777, bAutoStart = True, bLogPackets = False,
      SocketReceiver = None, ListenSocket = None, bRunning = False\<rparr>"

definition sender_init :: sender where
  "sender_init =
     \<lparr>TargetHost = ''127.0.0.1'', TargetPort = 7780, bAutoConnect = True,
      SendSocket = None, bConnected = False\<rparr>"

definition world_init :: world where
  "world_init =
     \<lparr>Sockets = [], Receivers = [], GameThreadTasks = [], Broadcasts = [], SendToCalls = []\<rparr>"

text \<open>
  The theorems below hold for every engine. To run the model on concrete packets, one
  engine is fixed here. Its deserializer is a finite table of the texts used in the
  examples with the DOM each of them denotes (any other text is rejected); it converts
  no value to another type; a JSON number becomes an \<^verbatim>\<open>int32\<close> when it is a whole
  number in range.
\<close>

definition snapshot_text :: string where
  \<open>snapshot_text =
     ''{"schema":"people_count_v1","type":"snapshot_counts","timestamp":1730000000.5,"sensors":[{"id":"A","count":3},{"id":"","count":5},{"not":"valid"},{"id":"A","count":9}]}''\<close>

definition snapshot_dom :: json where
  "snapshot_dom =
     JObject
       [''schema'' \<mapsto> JString ''people_count_v1'',
        ''type'' \<mapsto> JString ''snapshot_counts'',
        ''timestamp'' \<mapsto> JNumber (3460000001 / 2),
        ''sensors'' \<mapsto>
           JArray
             [JObject [''id'' \<mapsto> JString ''A'', ''count'' \<mapsto> JNumber 3],
              JObject [''id'' \<mapsto> JString [], ''count'' \<mapsto> JNumber 5],
              JObject [''not'' \<mapsto> JString ''valid''],
              JObject [''id'' \<mapsto> JString ''A'', ''count'' \<mapsto> JNumber 9]]]"

definition partial_text :: string where
  \<open>partial_text = ''{"sensors":[{"id":"B"},{"id":"C","count":null},{"id":"D","count":4}]}''\<close>

definition partial_dom :: json where
  "partial_dom =
     JObject
       [''sensors'' \<mapsto>
           JArray
             [JObject [''id'' \<mapsto> JString ''B''],
              JObject [''id'' \<mapsto> JString ''C'', ''count'' \<mapsto> JNull],
              JObject [''id'' \<mapsto> JString ''D'', ''count'' \<mapsto> JNumber 4]]]"

definition converted_text :: string where
  \<open>converted_text = ''{"sensors":[{"id":"C","count":"5"},{"id":"D","count":true}]}''\<close>

definition converted_dom :: json where
  "converted_dom =
     JObject
       [''sensors'' \<mapsto>
           JArray
             [JObject [''id'' \<mapsto> JString ''C'', ''count'' \<mapsto> JString ''5''],
              JObject [''id'' \<mapsto> JString ''D'', ''count'' \<mapsto> JBoolean True]]]"

definition case_text :: string where
  \<open>case_text = ''{"sensors":[{"id":"b"},{"id":"B","count":4}]}''\<close>

definition case_dom :: json where
  "case_dom =
     JObject
       [''sensors'' \<mapsto>
           JArray
             [JObject [''id'' \<mapsto> JString ''b''],
              JObject [''id'' \<mapsto> JString ''B'', ''count'' \<mapsto> JNumber 4]]]"

definition capture_text :: string where
  \<open>capture_text = ''{"cmd":"capture"}''\<close>

definition set_interval_text :: string where
  \<open>set_interval_text = ''{"cmd":"set_interval","seconds":2.0}''\<close>

definition sample_table :: "(string \<times> json) list" where
  \<open>sample_table =
     [(snapshot_text, snapshot_dom),
      (partial_text, partial_dom),
      (converted_text, converted_dom),
      (case_text, case_dom),
      (capture_text, JObject [''cmd'' \<mapsto> JString ''capture'']),
      (set_interval_text, JObject [''cmd'' \<mapsto> JString ''set_interval'', ''seconds'' \<mapsto> JNumber 2]),
      (''{"sensors":7}'', JObject [''sensors'' \<mapsto> JNumber 7]),
      (''[1,2]'', JArray [JNumber 1, JNumber 2]),
      (''"capture"'', JString ''capture'')]\<close>

definition sample_json :: json_engine where
  "sample_json =
     \<lparr>Deserialize = map_of sample_table,
      coerce_string = (\<lambda>v. None),
      coerce_number = (\<lambda>v. None),
      coerce_int32 = (\<lambda>v. None),
      narrow_int32 =
        (\<lambda>x. if x \<in> \<int> \<and> - (2 ^ 31) \<le> x \<and> x < 2 ^ 31 then Some (word_of_int \<lfloor>x\<rfloor>) else None)\<rparr>"



text \<open>
  A sample network: two host texts are valid, sockets can be built, every send
  reports success with the full length, and the converters map characters to bytes
  one to one (the texts used are ASCII).
\<close>

definition sample_net :: net_engine where
  "sample_net =
     \<lparr>SetIp = (\<lambda>host. host = ''127.0.0.1'' \<or> host = ''0.0.0.0''),
      BuildListenSocket = (\<lambda>host port. Some 1),
      BuildSendSocket = Some 2,
      SendTo = (\<lambda>h data host port. (True, word_of_nat (length data))),
      TCHARToUTF8 = map (\<lambda>c. word_of_nat (of_char c)),
      UTF8ToTCHAR = map (\<lambda>b. char_of (unat b))\<rparr>"

text \<open>The same network, except that every send fails and reports \<open>-1\<close> bytes.\<close>

definition failing_send_net :: net_engine where
  "failing_send_net = sample_net\<lparr>SendTo := (\<lambda>h data host port. (False, - 1))\<rparr>"

section \<open>Properties of \<^verbatim>\<open>ParsePeopleCountPacket\<close>\<close>

subsection \<open>Auxiliary facts\<close>

lemmas sample_text_defs =
  snapshot_text_def partial_text_def converted_text_def case_text_def capture_text_def
  set_interval_text_def




lemma TMap_Add_empty: "TMap_Add Map.empty k v = [k \<mapsto> v]"
  by (auto simp add: TMap_Add_def fun_eq_iff)

lemma TMap_Add_singleton: "TMap_Add [k \<mapsto> v] k v' = [k \<mapsto> v']"
  by (auto simp add: TMap_Add_def fun_eq_iff)

lemma TMap_Add_again: "TMap_Add (TMap_Add m k v) k v' = TMap_Add m k v'"
  by (auto simp add: TMap_Add_def fun_eq_iff)




lemma sensor_entry_not_object:
  "\<forall>Obj. V \<noteq> JObject Obj \<Longrightarrow> sensor_entry E m V = m"
  by (cases V) (simp_all add: sensor_entry_def)

lemma ParsePeopleCountPacket_object:
  "Deserialize E JsonString = Some (JObject Root) \<Longrightarrow>
   ParsePeopleCountPacket E JsonString m0 t0 =
     (True,
      (case TryGetArrayField Root ''sensors'' of
         Some SensorsArray \<Rightarrow> sensors_loop E Map.empty SensorsArray
       | None \<Rightarrow> Map.empty),
      assign_if (TryGetNumberField E Root ''timestamp'') 0)"
  by (simp add: ParsePeopleCountPacket_def ParsePeopleCountPacket_vars_def Let_def
      split: option.splits)

lemma ParsePeopleCountPacket_reject:
  "Deserialize E JsonString = None \<or>
   (\<exists>v. Deserialize E JsonString = Some v \<and> (\<forall>Root. v \<noteq> JObject Root)) \<Longrightarrow>
   ParsePeopleCountPacket E JsonString m0 t0 = (False, Map.empty, 0)"
  by (auto simp add: ParsePeopleCountPacket_def ParsePeopleCountPacket_vars_def Let_def
      split: option.splits json.splits)

lemma sample_json_snapshot: "Deserialize sample_json snapshot_text = Some snapshot_dom"
  by (simp add: sample_json_def sample_table_def)

lemma sample_json_nine: "narrow_int32 sample_json 9 = Some 9"
  by (simp add: sample_json_def)



lemma sample_json_array: "Deserialize sample_json ''[1,2]'' = Some (JArray [JNumber 1, JNumber 2])"
  by (simp add: sample_json_def sample_table_def sample_text_defs)

lemma sample_json_truncated: \<open>Deserialize sample_json ''{"sensors":['' = None\<close>
  by (simp add: sample_json_def sample_table_def sample_text_defs)


subsection \<open>The example packet\<close>

text \<open>
  Claim C1. Whenever the text deserializes to an object whose \<^verbatim>\<open>sensors\<close> field is the
  array \<^verbatim>\<open>[{"id":"A","count":3},{"id":"","count":5},{"not":"valid"},{"id":"A","count":9}]\<close>
  (and the engine reads the JSON number 9 as the \<^verbatim>\<open>int32\<close> 9), the function returns
  \<^verbatim>\<open>true\<close> and the sensor map is exactly \<open>A \<mapsto> 9\<close>, whatever the out-parameters held
  before: the entry with the empty id and the entry without an id add nothing, and
  the second entry for \<open>A\<close> replaces the first.
\<close>

theorem C1_example_packet:
  assumes root: "Deserialize E JsonString = Some (JObject Root)"
    and sensors: "Root ''sensors'' =
      Some (JArray
        [JObject [''id'' \<mapsto> JString ''A'', ''count'' \<mapsto> JNumber 3],
         JObject [''id'' \<mapsto> JString [], ''count'' \<mapsto> JNumber 5],
         JObject [''not'' \<mapsto> JString ''valid''],
         JObject [''id'' \<mapsto> JString ''A'', ''count'' \<mapsto> JNumber 9]])"
    and nine: "narrow_int32 E 9 = Some 9"
  shows "ParsePeopleCountPacket E JsonString m0 t0 =
           (True, [''A'' \<mapsto> 9], assign_if (TryGetNumberField E Root ''timestamp'') 0)"
  using sensors nine
  by (simp add: ParsePeopleCountPacket_object [OF root] TryGetArrayField_def sensor_entry_def
      TryGetStringField_def TryGetNumberField_int32_def assign_if_def Let_def
      TMap_Add_empty TMap_Add_singleton)

theorem C1_example_packet_witness:
  "Deserialize sample_json snapshot_text = Some snapshot_dom \<and>
   narrow_int32 sample_json 9 = Some 9 \<and>
   ParsePeopleCountPacket sample_json snapshot_text [''Z'' \<mapsto> 1] 7 =
     (True, [''A'' \<mapsto> 9], 3460000001 / 2)"
proof -
  have "ParsePeopleCountPacket sample_json snapshot_text [''Z'' \<mapsto> 1] 7 =
          (True, [''A'' \<mapsto> 9], 3460000001 / 2)"
    using C1_example_packet [of sample_json snapshot_text _ "[''Z'' \<mapsto> 1]" 7,
        OF sample_json_snapshot [unfolded snapshot_dom_def] _ sample_json_nine]
    by (simp add: TryGetNumberField_def assign_if_def)
  then show ?thesis
    using sample_json_snapshot sample_json_nine by simp
qed

subsection \<open>Rejected texts\<close>

text \<open>
  Claim C4. When the engine rejects the text, or deserializes it to a value that is
  not an object, the function returns \<^verbatim>\<open>false\<close>, with the sensor map empty and the
  timestamp 0. The function is total: it has a result on every text, and the C++
  has no \<^verbatim>\<open>throw\<close> and dereferences \<^verbatim>\<open>Root\<close> only after the validity test.
\<close>

theorem C4_malformed_rejected:
  assumes "Deserialize E JsonString = None \<or>
           (\<exists>v. Deserialize E JsonString = Some v \<and> (\<forall>Root. v \<noteq> JObject Root))"
  shows "ParsePeopleCountPacket E JsonString m0 t0 = (False, Map.empty, 0)"
  using assms by (rule ParsePeopleCountPacket_reject)

theorem C4_malformed_rejected_witness:
  \<open>Deserialize sample_json ''{"sensors":['' = None \<and>
   ParsePeopleCountPacket sample_json ''{"sensors":['' [''Z'' \<mapsto> 1] 7 = (False, Map.empty, 0) \<and>
   Deserialize sample_json ''[1,2]'' = Some (JArray [JNumber 1, JNumber 2]) \<and>
   ParsePeopleCountPacket sample_json ''[1,2]'' [''Z'' \<mapsto> 1] 7 = (False, Map.empty, 0)\<close>
  using sample_json_truncated sample_json_array
    C4_malformed_rejected [of sample_json \<open>''{"sensors":[''\<close> "[''Z'' \<mapsto> 1]" 7]
    C4_malformed_rejected [of sample_json "''[1,2]''" "[''Z'' \<mapsto> 1]" 7]
  by simp

subsection \<open>Objects with fields missing\<close>



subsection \<open>Entries without a numeric count\<close>




text \<open>
  Two spellings of one id share one pair: in
  \<^verbatim>\<open>{"sensors":[{"id":"b"},{"id":"B","count":4}]}\<close> the second entry replaces the
  first, and the output holds the single pair \<open>B \<mapsto> 4\<close>.
\<close>

lemma case_variant_ids_share_one_pair:
  "ParsePeopleCountPacket sample_json case_text Map.empty 0 = (True, [''B'' \<mapsto> 4], 0)"
proof -
  have root: "Deserialize sample_json case_text = Some case_dom"
    by (simp add: sample_json_def sample_table_def sample_text_defs)
  have four: "narrow_int32 sample_json 4 = Some 4"
    by (simp add: sample_json_def)
  have add: "TMap_Add [''b'' \<mapsto> 0] ''B'' (4::int32) = [''B'' \<mapsto> 4]"
    by (auto simp add: TMap_Add_def fun_eq_iff same_key_def lower_code_def)
  show ?thesis
    by (simp add: ParsePeopleCountPacket_object [OF root [unfolded case_dom_def]]
        TryGetArrayField_def TryGetNumberField_def sensor_entry_def TryGetStringField_def
        TryGetNumberField_int32_def assign_if_def four TMap_Add_empty add)
qed

subsection \<open>The out-parameters are reset first\<close>

text \<open>
  Claim C10. The function empties \<^verbatim>\<open>OutSensors\<close> and sets \<^verbatim>\<open>OutTimestamp\<close> to 0 before
  anything else, so its result is the same for any two previous contents of the
  out-parameters; and whenever it returns \<^verbatim>\<open>false\<close>, the sensor map is empty and the
  timestamp is 0.
\<close>

theorem C10_outputs_reset:
  "ParsePeopleCountPacket E JsonString m0 t0 = ParsePeopleCountPacket E JsonString m1 t1 \<and>
   (\<not> fst (ParsePeopleCountPacket E JsonString m0 t0) \<longrightarrow>
      snd (ParsePeopleCountPacket E JsonString m0 t0) = (Map.empty, 0))"
  by (simp add: ParsePeopleCountPacket_def ParsePeopleCountPacket_vars_def Let_def
      split: option.splits json.splits)

theorem C10_outputs_reset_witness:
  "ParsePeopleCountPacket sample_json ''[1,2]'' [''Z'' \<mapsto> 1] 7 = (False, Map.empty, 0) \<and>
   ParsePeopleCountPacket sample_json snapshot_text [''Z'' \<mapsto> 1] 7 =
     ParsePeopleCountPacket sample_json snapshot_text Map.empty 0"
proof -
  have nf: "\<not> fst (ParsePeopleCountPacket sample_json ''[1,2]'' [''Z'' \<mapsto> 1] 7)"
    using sample_json_array by (simp add: ParsePeopleCountPacket_reject)
  have "snd (ParsePeopleCountPacket sample_json ''[1,2]'' [''Z'' \<mapsto> 1] 7) = (Map.empty, 0)"
    using C10_outputs_reset [of sample_json "''[1,2]''" "[''Z'' \<mapsto> 1]" 7 Map.empty 0] nf
    by blast
  with nf have a: "ParsePeopleCountPacket sample_json ''[1,2]'' [''Z'' \<mapsto> 1] 7 =
      (False, Map.empty, 0)"
    by (simp add: prod_eq_iff)
  have b: "ParsePeopleCountPacket sample_json snapshot_text [''Z'' \<mapsto> 1] 7 =
     ParsePeopleCountPacket sample_json snapshot_text Map.empty 0"
    using C10_outputs_reset [of sample_json snapshot_text "[''Z'' \<mapsto> 1]" 7 Map.empty 0]
    by blast
  from a b show ?thesis by blast
qed

section \<open>Properties of the receiver component\<close>

subsection \<open>Auxiliary facts\<close>

lemma run_tasks_append: "run_tasks fired pending = fired @ pending"
  by (induction pending arbitrary: fired) simp_all

lemma run_append: "run N (es @ fs) rw = run N fs (run N es rw)"
  by (induction es arbitrary: rw) simp_all

lemma run_datagrams:
  "SocketReceiver r \<noteq> None \<Longrightarrow>
   run N (map Datagram ds) (r, w) =
     (r, w\<lparr>GameThreadTasks := GameThreadTasks w @ map (UTF8ToTCHAR N) ds\<rparr>)"
  by (induction ds arbitrary: w) (simp_all add: HandlePacket_def)

lemma StartReceiver_running:
  "fst (StartReceiver N rw) \<Longrightarrow> bRunning (fst (snd (StartReceiver N rw)))"
  by (cases rw)
    (auto simp add: StartReceiver_def Receiver_CreateSocket_def Let_def
      split: if_splits option.splits bool.splits prod.splits)

lemma StopReceiver_not_running: "\<not> bRunning (fst (StopReceiver rw))"
  by (cases rw) (simp add: StopReceiver_def Receiver_DestroySocket_def split: option.splits)

lemma StopReceiver_queue:
  "GameThreadTasks (snd (StopReceiver rw)) = GameThreadTasks (snd rw) \<and>
   Broadcasts (snd (StopReceiver rw)) = Broadcasts (snd rw)"
  by (cases rw) (simp add: StopReceiver_def Receiver_DestroySocket_def split: option.splits)

lemma StopReceiver_released:
  "bRunning (fst rw) \<Longrightarrow>
   SocketReceiver (fst (StopReceiver rw)) = None \<and> ListenSocket (fst (StopReceiver rw)) = None"
  by (cases rw) (simp add: StopReceiver_def Receiver_DestroySocket_def split: option.splits)

lemma world_init_queue: "GameThreadTasks world_init = [] \<and> Broadcasts world_init = []"
  by (simp add: world_init_def)

lemma sample_start:
  "StartReceiver sample_net (receiver_init, world_init) =
    (True,
     receiver_init\<lparr>SocketReceiver := Some (FUdpSocketReceiver (Some 1) 2 ''PeopleCounterUDP_RX''),
       ListenSocket := Some 1, bRunning := True\<rparr>,
     world_init\<lparr>Sockets := [1],
       Receivers := [FUdpSocketReceiver (Some 1) 2 ''PeopleCounterUDP_RX'']\<rparr>)"
  by (simp add: StartReceiver_def Receiver_CreateSocket_def sample_net_def receiver_init_def
      world_init_def Let_def)

lemma sample_net_decode: "UTF8ToTCHAR sample_net [0x6E, 0x6F, 0x70, 0x65] = ''nope''"
  by code_simp

lemma sample_net_decode_braces: "UTF8ToTCHAR sample_net [0x7B, 0x7D] = ''{}''"
  by code_simp

lemma sample_json_nope: "Deserialize sample_json ''nope'' = None"
  by (simp add: sample_json_def sample_table_def sample_text_defs)

subsection \<open>Starting and stopping twice\<close>

text \<open>
  Claim C7. \<^verbatim>\<open>StartReceiver\<close> on a running receiver returns \<^verbatim>\<open>true\<close> and changes neither
  the component nor the world, so no second socket and no second receive loop come
  into being; in particular a second \<^verbatim>\<open>StartReceiver\<close> after a successful one does
  nothing. \<^verbatim>\<open>StopReceiver\<close> on a receiver that is not running changes nothing, and a
  second \<^verbatim>\<open>StopReceiver\<close> after any \<^verbatim>\<open>StopReceiver\<close> changes nothing.
\<close>

theorem C7_start_stop_idempotent:
  "(bRunning r \<longrightarrow> StartReceiver N (r, w) = (True, r, w)) \<and>
   (fst (StartReceiver N (r, w)) \<longrightarrow>
      StartReceiver N (snd (StartReceiver N (r, w))) = (True, snd (StartReceiver N (r, w)))) \<and>
   (\<not> bRunning r \<longrightarrow> StopReceiver (r, w) = (r, w)) \<and>
   StopReceiver (StopReceiver (r, w)) = StopReceiver (r, w)"
proof -
  have a: "bRunning r' \<Longrightarrow> StartReceiver N (r', w') = (True, r', w')" for r' w'
    by (simp add: StartReceiver_def)
  have b: "\<not> bRunning r' \<Longrightarrow> StopReceiver (r', w') = (r', w')" for r' w'
    by (simp add: StopReceiver_def)
  have c: "StartReceiver N (snd (StartReceiver N (r, w))) = (True, snd (StartReceiver N (r, w)))"
    if "fst (StartReceiver N (r, w))"
    using a [of "fst (snd (StartReceiver N (r, w)))" "snd (snd (StartReceiver N (r, w)))"]
      StartReceiver_running [OF that]
    by simp
  have d: "StopReceiver (StopReceiver (r, w)) = StopReceiver (r, w)"
    using b [of "fst (StopReceiver (r, w))" "snd (StopReceiver (r, w))"]
      StopReceiver_not_running [of "(r, w)"]
    by simp
  from a b c d show ?thesis by blast
qed

theorem C7_start_stop_idempotent_witness:
  "fst (StartReceiver sample_net (receiver_init, world_init)) \<and>
   bRunning (fst (snd (StartReceiver sample_net (receiver_init, world_init)))) \<and>
   StartReceiver sample_net (snd (StartReceiver sample_net (receiver_init, world_init))) =
     (True, snd (StartReceiver sample_net (receiver_init, world_init))) \<and>
   Sockets (snd (snd (StartReceiver sample_net
      (snd (StartReceiver sample_net (receiver_init, world_init)))))) = [1] \<and>
   Receivers (snd (snd (StartReceiver sample_net
      (snd (StartReceiver sample_net (receiver_init, world_init)))))) =
     [FUdpSocketReceiver (Some 1) 2 ''PeopleCounterUDP_RX''] \<and>
   \<not> bRunning receiver_init \<and>
   StopReceiver (receiver_init, world_init) = (receiver_init, world_init)"
proof -
  have n: "\<not> bRunning receiver_init"
    by (simp add: receiver_init_def)
  show ?thesis
    using C7_start_stop_idempotent [of receiver_init sample_net world_init] sample_start n
    by simp
qed

subsection \<open>What reaches the consumer\<close>

text \<open>
  Claim C2 says that \<^verbatim>\<open>OnJsonReceived\<close> fires exactly for the datagrams that decode as
  a snapshot. The receiver does not decode: \<^verbatim>\<open>HandlePacket\<close> queues the broadcast for
  every datagram. Here a datagram with the four bytes of \<^verbatim>\<open>nope\<close>, which
  \<^verbatim>\<open>ParsePeopleCountPacket\<close> rejects, is broadcast to the consumer.
\<close>

theorem C2_undecodable_reaches_consumer:
  "\<not> fst (ParsePeopleCountPacket sample_json (UTF8ToTCHAR sample_net [0x6E, 0x6F, 0x70, 0x65])
           Map.empty 0) \<and>
   Broadcasts (snd (run sample_net [CallStart, Datagram [0x6E, 0x6F, 0x70, 0x65], GameThreadRuns]
     (receiver_init, world_init))) = [''nope'']"
proof -
  have "\<not> fst (ParsePeopleCountPacket sample_json ''nope'' Map.empty 0)"
    using sample_json_nope by (simp add: ParsePeopleCountPacket_reject)
  moreover have "Broadcasts (snd (run sample_net
      [CallStart, Datagram [0x6E, 0x6F, 0x70, 0x65], GameThreadRuns]
      (receiver_init, world_init))) = [''nope'']"
    by (simp add: sample_start HandlePacket_def ProcessGameThreadTasks_def sample_net_decode
        world_init_queue)
  ultimately show ?thesis by (simp add: sample_net_decode)
qed

text \<open>
  Claim C2, as the code has it. While a receiver object exists, every datagram that
  arrives queues exactly one broadcast of its converted text, in arrival order and
  whether or not the text would decode; the component's own state (and with it
  \<^verbatim>\<open>bRunning\<close> and the receive loop) is left as it was by any datagram; and when the
  game thread next runs its tasks, each queued text is broadcast once.
\<close>

theorem C2_every_datagram_broadcast_once:
  assumes live: "SocketReceiver r \<noteq> None"
  shows "run N (map Datagram ds) (r, w) =
           (r, w\<lparr>GameThreadTasks := GameThreadTasks w @ map (UTF8ToTCHAR N) ds\<rparr>) \<and>
         Broadcasts (snd (run N (map Datagram ds @ [GameThreadRuns]) (r, w))) =
           Broadcasts w @ GameThreadTasks w @ map (UTF8ToTCHAR N) ds \<and>
         GameThreadTasks (snd (run N (map Datagram ds @ [GameThreadRuns]) (r, w))) = []"
  by (simp add: run_append run_datagrams [OF live] ProcessGameThreadTasks_def run_tasks_append)

theorem C2_every_datagram_broadcast_once_witness:
  "SocketReceiver (receiver_init\<lparr>SocketReceiver :=
       Some (FUdpSocketReceiver (Some 1) 2 ''PeopleCounterUDP_RX''),
     ListenSocket := Some 1, bRunning := True\<rparr>) \<noteq> None \<and>
   Broadcasts (snd (run sample_net
     (map Datagram [[0x6E, 0x6F, 0x70, 0x65], [0x7B, 0x7D]] @ [GameThreadRuns])
     (receiver_init\<lparr>SocketReceiver :=
         Some (FUdpSocketReceiver (Some 1) 2 ''PeopleCounterUDP_RX''),
       ListenSocket := Some 1, bRunning := True\<rparr>,
      world_init))) = [''nope'', ''{}'']"
proof (rule conjI)
  let ?r = "receiver_init\<lparr>SocketReceiver :=
       Some (FUdpSocketReceiver (Some 1) 2 ''PeopleCounterUDP_RX''),
     ListenSocket := Some 1, bRunning := True\<rparr>"
  show live: "SocketReceiver ?r \<noteq> None"
    by simp
  have "Broadcasts (snd (run sample_net
      (map Datagram [[0x6E, 0x6F, 0x70, 0x65], [0x7B, 0x7D]] @ [GameThreadRuns]) (?r, world_init))) =
    Broadcasts world_init @ GameThreadTasks world_init @
      map (UTF8ToTCHAR sample_net) [[0x6E, 0x6F, 0x70, 0x65], [0x7B, 0x7D]]"
    using C2_every_datagram_broadcast_once [OF live] by blast
  also have "\<dots> = [''nope'', ''{}'']"
    by (simp add: world_init_queue sample_net_decode sample_net_decode_braces)
  finally show "Broadcasts (snd (run sample_net
      (map Datagram [[0x6E, 0x6F, 0x70, 0x65], [0x7B, 0x7D]] @ [GameThreadRuns]) (?r, world_init))) =
    [''nope'', ''{}'']" .
qed

subsection \<open>Broadcasts queued before a stop\<close>

text \<open>
  Claim C8 says that no callback for a datagram received before \<^verbatim>\<open>StopReceiver\<close> fires
  after it has returned. In the run below the receiver is started, a datagram with
  the bytes of \<^verbatim>\<open>{}\<close> arrives, and the owner calls \<^verbatim>\<open>StopReceiver\<close>: when the call has
  returned the receiver is not running and nothing has been broadcast; the game
  thread then runs its tasks, and the text is broadcast.
\<close>

theorem C8_broadcast_after_stop:
  "\<not> bRunning (fst (run sample_net [CallStart, Datagram [0x7B, 0x7D], CallStop]
       (receiver_init, world_init))) \<and>
   Broadcasts (snd (run sample_net [CallStart, Datagram [0x7B, 0x7D], CallStop]
       (receiver_init, world_init))) = [] \<and>
   Broadcasts (snd (run sample_net [CallStart, Datagram [0x7B, 0x7D], CallStop, GameThreadRuns]
       (receiver_init, world_init))) = [''{}'']"
  by (simp add: sample_start HandlePacket_def StopReceiver_def Receiver_DestroySocket_def
      ProcessGameThreadTasks_def world_init_queue sample_net_decode_braces)

text \<open>
  Claim C8, as the code has it. After \<^verbatim>\<open>StopReceiver\<close> the receiver is not running. A
  stop of a running receiver stops and deletes the receiver object (it leaves the
  world's receivers, and \<^verbatim>\<open>SocketReceiver\<close> is null) and closes and destroys the
  socket (it leaves the world's sockets, and \<^verbatim>\<open>ListenSocket\<close> is null); nothing else
  of the component or the world changes, and a datagram that arrives afterwards is
  not handled. The tasks already queued for the game thread are left in the queue,
  and the game thread broadcasts them when it next runs its tasks.
\<close>

theorem C8_stop_keeps_queued_broadcasts:
  "\<not> bRunning (fst (StopReceiver (r, w))) \<and>
   GameThreadTasks (snd (StopReceiver (r, w))) = GameThreadTasks w \<and>
   Broadcasts (snd (StopReceiver (r, w))) = Broadcasts w \<and>
   Broadcasts (ProcessGameThreadTasks (snd (StopReceiver (r, w)))) =
     Broadcasts w @ GameThreadTasks w \<and>
   (bRunning r \<longrightarrow>
      StopReceiver (r, w) =
        (r\<lparr>SocketReceiver := None, ListenSocket := None, bRunning := False\<rparr>,
         w\<lparr>Receivers :=
             (case SocketReceiver r of None \<Rightarrow> Receivers w | Some R \<Rightarrow> remove1 R (Receivers w)),
           Sockets :=
             (case ListenSocket r of None \<Rightarrow> Sockets w | Some h \<Rightarrow> remove1 h (Sockets w))\<rparr>) \<and>
      step N (Datagram Data) (StopReceiver (r, w)) = StopReceiver (r, w))"
proof -
  have result: "StopReceiver (r, w) =
        (r\<lparr>SocketReceiver := None, ListenSocket := None, bRunning := False\<rparr>,
         w\<lparr>Receivers :=
             (case SocketReceiver r of None \<Rightarrow> Receivers w | Some R \<Rightarrow> remove1 R (Receivers w)),
           Sockets :=
             (case ListenSocket r of None \<Rightarrow> Sockets w | Some h \<Rightarrow> remove1 h (Sockets w))\<rparr>)"
    if "bRunning r"
    using that
    by (simp add: StopReceiver_def Receiver_DestroySocket_def split: option.splits)
  have "step N (Datagram Data) (StopReceiver (r, w)) = StopReceiver (r, w)" if "bRunning r"
    using StopReceiver_released [of "(r, w)"] that by simp
  with result show ?thesis
    using StopReceiver_not_running [of "(r, w)"] StopReceiver_queue [of "(r, w)"]
    by (simp add: ProcessGameThreadTasks_def run_tasks_append)
qed

theorem C8_stop_keeps_queued_broadcasts_witness:
  "bRunning (receiver_init\<lparr>SocketReceiver :=
       Some (FUdpSocketReceiver (Some 1) 2 ''PeopleCounterUDP_RX''),
     ListenSocket := Some 1, bRunning := True\<rparr>) \<and>
   StopReceiver
     (receiver_init\<lparr>SocketReceiver :=
         Some (FUdpSocketReceiver (Some 1) 2 ''PeopleCounterUDP_RX''),
       ListenSocket := Some 1, bRunning := True\<rparr>,
      world_init\<lparr>Sockets := [1],
        Receivers := [FUdpSocketReceiver (Some 1) 2 ''PeopleCounterUDP_RX''],
        GameThreadTasks := [''{}'']\<rparr>) =
     (receiver_init, world_init\<lparr>GameThreadTasks := [''{}'']\<rparr>) \<and>
   Broadcasts (ProcessGameThreadTasks (snd (StopReceiver
     (receiver_init\<lparr>SocketReceiver :=
         Some (FUdpSocketReceiver (Some 1) 2 ''PeopleCounterUDP_RX''),
       ListenSocket := Some 1, bRunning := True\<rparr>,
      world_init\<lparr>Sockets := [1],
        Receivers := [FUdpSocketReceiver (Some 1) 2 ''PeopleCounterUDP_RX''],
        GameThreadTasks := [''{}'']\<rparr>)))) = [''{}'']"
proof -
  let ?r = "receiver_init\<lparr>SocketReceiver :=
       Some (FUdpSocketReceiver (Some 1) 2 ''PeopleCounterUDP_RX''),
     ListenSocket := Some 1, bRunning := True\<rparr>"
  let ?w = "world_init\<lparr>Sockets := [1],
        Receivers := [FUdpSocketReceiver (Some 1) 2 ''PeopleCounterUDP_RX''],
        GameThreadTasks := [''{}'']\<rparr>"
  have running: "bRunning ?r"
    by simp
  have q: "Broadcasts ?w @ GameThreadTasks ?w = [''{}'']"
    by (simp add: world_init_queue)
  from C8_stop_keeps_queued_broadcasts [of ?r ?w sample_net "[]"] running
  have "StopReceiver (?r, ?w) =
      (?r\<lparr>SocketReceiver := None, ListenSocket := None, bRunning := False\<rparr>,
       ?w\<lparr>Receivers :=
             (case SocketReceiver ?r of None \<Rightarrow> Receivers ?w | Some R \<Rightarrow> remove1 R (Receivers ?w)),
          Sockets :=
             (case ListenSocket ?r of None \<Rightarrow> Sockets ?w | Some h \<Rightarrow> remove1 h (Sockets ?w))\<rparr>)"
    and b: "Broadcasts (ProcessGameThreadTasks (snd (StopReceiver (?r, ?w)))) =
      Broadcasts ?w @ GameThreadTasks ?w"
    by blast+
  then have "StopReceiver (?r, ?w) = (receiver_init, world_init\<lparr>GameThreadTasks := [''{}'']\<rparr>)"
    by (simp add: receiver_init_def world_init_def)
  with running b q show ?thesis by simp
qed

section \<open>Properties of the sender component\<close>

subsection \<open>Auxiliary facts\<close>

lemma Sender_CreateSocket_socket:
  "Sender_CreateSocket N (s, w) = (True, s1, w1) \<Longrightarrow> SendSocket s1 \<noteq> None"
  by (auto simp add: Sender_CreateSocket_def split: if_splits option.splits)

lemma SendJsonString_connected:
  "SendSocket s = Some h \<Longrightarrow>
   SendJsonString N JsonString (s, w) =
     (if \<not> SetIp N (TargetHost s) then (False, s, w)
      else (fst (SendTo N h (TCHARToUTF8 N JsonString) (TargetHost s) (TargetPort s)), s,
            w\<lparr>SendToCalls := SendToCalls w @
               [(h, TCHARToUTF8 N JsonString, TargetHost s, TargetPort s)]\<rparr>))"
  by (simp add: SendJsonString_def Let_def split: prod.splits)

lemma SendJsonString_unconnected:
  "SendSocket s = None \<Longrightarrow>
   SendJsonString N JsonString (s, w) =
     (if \<not> SetIp N (TargetHost s) then (False, s, w)
      else case BuildSendSocket N of
             None \<Rightarrow> (False, s\<lparr>SendSocket := None\<rparr>, w)
           | Some h \<Rightarrow>
               (fst (SendTo N h (TCHARToUTF8 N JsonString) (TargetHost s) (TargetPort s)),
                s\<lparr>SendSocket := Some h, bConnected := True\<rparr>,
                w\<lparr>Sockets := h # Sockets w,
                  SendToCalls := SendToCalls w @
                    [(h, TCHARToUTF8 N JsonString, TargetHost s, TargetPort s)]\<rparr>))"
proof (cases "SetIp N (TargetHost s)")
  case False
  assume "SendSocket s = None"
  with False have "Sender_CreateSocket N (s, w) = (False, s, w)"
    by (simp add: Sender_CreateSocket_def)
  with False \<open>SendSocket s = None\<close> show ?thesis
    by (simp add: SendJsonString_def)
next
  case True
  assume none: "SendSocket s = None"
  show ?thesis
  proof (cases "BuildSendSocket N")
    case None
    with True none have "Sender_CreateSocket N (s, w) = (False, s\<lparr>SendSocket := None\<rparr>, w)"
      by (simp add: Sender_CreateSocket_def)
    with True none None show ?thesis
      by (simp add: SendJsonString_def)
  next
    case (Some h)
    with True none have "Sender_CreateSocket N (s, w) =
        (True, s\<lparr>SendSocket := Some h, bConnected := True\<rparr>, w\<lparr>Sockets := h # Sockets w\<rparr>)"
      by (simp add: Sender_CreateSocket_def)
    with True none Some show ?thesis
      by (simp add: SendJsonString_def Let_def split: prod.splits)
  qed
qed

lemma sample_send:
  "SendJsonString N JsonString (sender_init, world_init) =
     (if \<not> SetIp N ''127.0.0.1'' then (False, sender_init, world_init)
      else case BuildSendSocket N of
             None \<Rightarrow> (False, sender_init, world_init)
           | Some h \<Rightarrow>
               (fst (SendTo N h (TCHARToUTF8 N JsonString) ''127.0.0.1'' 7780),
                sender_init\<lparr>SendSocket := Some h, bConnected := True\<rparr>,
                world_init\<lparr>Sockets := [h],
                  SendToCalls := [(h, TCHARToUTF8 N JsonString, ''127.0.0.1'', 7780)]\<rparr>))"
  by (simp add: SendJsonString_unconnected sender_init_def world_init_def split: option.splits)

lemma sender_init_fields:
  "TargetHost sender_init = ''127.0.0.1'' \<and> TargetPort sender_init = 7780 \<and>
   SendSocket sender_init = None"
  by (simp add: sender_init_def)

lemma sample_net_fields:
  "SetIp sample_net ''127.0.0.1'' \<and> \<not> SetIp sample_net ''nowhere'' \<and>
   BuildSendSocket sample_net = Some 2"
  by (simp add: sample_net_def)

subsection \<open>The value returned by a send\<close>

text \<open>
  Claim C3. The socket is a UDP socket, whose \<^verbatim>\<open>SendTo\<close> hands a datagram to the
  system whole or not at all: whenever it returns \<^verbatim>\<open>true\<close>, the count it stores in
  \<^verbatim>\<open>BytesSent\<close> is the count asked for. On such a socket \<^verbatim>\<open>SendJsonString\<close> returns
  \<^verbatim>\<open>false\<close> when \<^verbatim>\<open>TargetHost\<close> is not a valid address, when there is no socket and
  none can be built, when \<^verbatim>\<open>SendTo\<close> returns \<^verbatim>\<open>false\<close>, and when \<^verbatim>\<open>SendTo\<close> stores a
  count below the count asked for. It returns \<^verbatim>\<open>true\<close> only when the address is
  valid and exactly one \<^verbatim>\<open>SendTo\<close> call, carrying the whole converted text to
  \<^verbatim>\<open>TargetHost\<close> and \<^verbatim>\<open>TargetPort\<close>, has returned \<^verbatim>\<open>true\<close> with the full count.
\<close>

theorem C3_send_fails_unless_whole_datagram:
  assumes datagram:
    "\<forall>h d host port. fst (SendTo N h d host port) \<longrightarrow> snd (SendTo N h d host port) = Conv_Length d"
  shows "(\<not> SetIp N (TargetHost s) \<longrightarrow> \<not> fst (SendJsonString N JsonString (s, w))) \<and>
         (SendSocket s = None \<and> BuildSendSocket N = None \<longrightarrow>
            \<not> fst (SendJsonString N JsonString (s, w))) \<and>
         ((SendSocket s = Some h \<or> SendSocket s = None \<and> BuildSendSocket N = Some h) \<and>
          \<not> fst (SendTo N h (TCHARToUTF8 N JsonString) (TargetHost s) (TargetPort s)) \<longrightarrow>
            \<not> fst (SendJsonString N JsonString (s, w))) \<and>
         ((SendSocket s = Some h \<or> SendSocket s = None \<and> BuildSendSocket N = Some h) \<and>
          sint (snd (SendTo N h (TCHARToUTF8 N JsonString) (TargetHost s) (TargetPort s))) <
            sint (Conv_Length (TCHARToUTF8 N JsonString)) \<longrightarrow>
            \<not> fst (SendJsonString N JsonString (s, w))) \<and>
         (fst (SendJsonString N JsonString (s, w)) \<longrightarrow>
            SetIp N (TargetHost s) \<and>
            (\<exists>h'. (SendSocket s = Some h' \<or> SendSocket s = None \<and> BuildSendSocket N = Some h') \<and>
               SendTo N h' (TCHARToUTF8 N JsonString) (TargetHost s) (TargetPort s) =
                 (True, Conv_Length (TCHARToUTF8 N JsonString)) \<and>
               SendToCalls (snd (snd (SendJsonString N JsonString (s, w)))) =
                 SendToCalls w @
                   [(h', TCHARToUTF8 N JsonString, TargetHost s, TargetPort s)]))"
proof -
  let ?P = "TCHARToUTF8 N JsonString"
  have whole: "SendTo N h' ?P (TargetHost s) (TargetPort s) = (True, Conv_Length ?P)"
    if "fst (SendTo N h' ?P (TargetHost s) (TargetPort s))" for h'
    using datagram that by (simp add: prod_eq_iff)
  have short: "\<not> fst (SendTo N h ?P (TargetHost s) (TargetPort s))"
    if "sint (snd (SendTo N h ?P (TargetHost s) (TargetPort s))) < sint (Conv_Length ?P)"
    using datagram that by auto
  show ?thesis
  proof (cases "SendSocket s")
    case None
    show ?thesis
    proof (cases "BuildSendSocket N")
      case none: None
      with None show ?thesis
        by (simp add: SendJsonString_unconnected)
    next
      case (Some h')
      with None whole [of h'] short show ?thesis
        by (auto simp add: SendJsonString_unconnected)
    qed
  next
    case (Some h')
    with whole [of h'] short show ?thesis
      by (auto simp add: SendJsonString_connected)
  qed
qed

theorem C3_send_fails_unless_whole_datagram_witness:
  "SendTo sample_net 2 (TCHARToUTF8 sample_net ''hello'') ''127.0.0.1'' 7780 = (True, 5) \<and>
   fst (SendJsonString sample_net ''hello'' (sender_init, world_init)) \<and>
   SendToCalls (snd (snd (SendJsonString sample_net ''hello'' (sender_init, world_init)))) =
     [(2, [0x68, 0x65, 0x6C, 0x6C, 0x6F], ''127.0.0.1'', 7780)] \<and>
   \<not> fst (SendTo failing_send_net 2 (TCHARToUTF8 failing_send_net ''hello'') ''127.0.0.1'' 7780) \<and>
   \<not> fst (SendJsonString failing_send_net ''hello'' (sender_init, world_init)) \<and>
   \<not> fst (SendJsonString sample_net ''hello'' (sender_init\<lparr>TargetHost := ''nowhere''\<rparr>, world_init))"
proof -
  have d1: "\<forall>h d host port. fst (SendTo sample_net h d host port) \<longrightarrow>
      snd (SendTo sample_net h d host port) = Conv_Length d"
    by (simp add: sample_net_def Conv_Length_def)
  have d2: "\<forall>h d host port. fst (SendTo failing_send_net h d host port) \<longrightarrow>
      snd (SendTo failing_send_net h d host port) = Conv_Length d"
    by (simp add: failing_send_net_def)
  have bytes: "TCHARToUTF8 sample_net ''hello'' = [0x68, 0x65, 0x6C, 0x6C, 0x6F]"
    by (simp add: sample_net_def)
  have ok: "fst (SendJsonString sample_net ''hello'' (sender_init, world_init))"
    by (simp add: sample_send sample_net_def)
  have sent: "SendTo sample_net 2 (TCHARToUTF8 sample_net ''hello'') ''127.0.0.1'' 7780 = (True, 5)"
    by (simp add: sample_net_def)
  have fields: "BuildSendSocket failing_send_net = Some 2 \<and> SetIp failing_send_net ''127.0.0.1''"
    by (simp add: failing_send_net_def sample_net_def)
  have fail: "\<not> fst (SendTo failing_send_net 2 (TCHARToUTF8 failing_send_net ''hello'')
      ''127.0.0.1'' 7780)"
    by (simp add: failing_send_net_def)
  note good = C3_send_fails_unless_whole_datagram
    [OF d1, of sender_init "''hello''" world_init 2]
  note bad = C3_send_fails_unless_whole_datagram
    [OF d2, of sender_init "''hello''" world_init 2]
  note nowhere = C3_send_fails_unless_whole_datagram
    [OF d1, of "sender_init\<lparr>TargetHost := ''nowhere''\<rparr>" "''hello''" world_init 2]
  from good ok have "\<exists>h'. (SendSocket sender_init = Some h' \<or>
        SendSocket sender_init = None \<and> BuildSendSocket sample_net = Some h') \<and>
      SendToCalls (snd (snd (SendJsonString sample_net ''hello'' (sender_init, world_init)))) =
        SendToCalls world_init @
          [(h', TCHARToUTF8 sample_net ''hello'', TargetHost sender_init, TargetPort sender_init)]"
    by blast
  then have calls: "SendToCalls (snd (snd (SendJsonString sample_net ''hello''
      (sender_init, world_init)))) = [(2, [0x68, 0x65, 0x6C, 0x6C, 0x6F], ''127.0.0.1'', 7780)]"
    using sender_init_fields sample_net_fields by (auto simp add: bytes world_init_def)
  from bad fail fields sender_init_fields
  have failed: "\<not> fst (SendJsonString failing_send_net ''hello'' (sender_init, world_init))"
    by simp
  from nowhere sample_net_fields
  have invalid: "\<not> fst (SendJsonString sample_net ''hello''
      (sender_init\<lparr>TargetHost := ''nowhere''\<rparr>, world_init))"
    by simp
  from sent ok calls fail failed invalid show ?thesis by blast
qed

subsection \<open>The encoding of commands\<close>

text \<open>
  Claim C6. Encoding \<^verbatim>\<open>SetInterval\<close> with 2.0 seconds, where the number is written
  \<^verbatim>\<open>2.0\<close>, gives the text \<^verbatim>\<open>{"cmd":"set_interval","seconds":2.0}\<close>, that is these 36
  bytes. Each of the six variants is written as one JSON object without white space
  that starts with the \<^verbatim>\<open>cmd\<close> field and carries, after it, the field of the variant
  and nothing else. \<^verbatim>\<open>SendJsonString\<close>, given the text of a command, hands exactly the
  bytes of its encoding to one \<^verbatim>\<open>SendTo\<close> call, when the target host is valid, a socket
  exists or can be built, and the engine's converter writes the text as its UTF-8.
\<close>

theorem C6_encode_commands:
  assumes two: "number_text 2 = ''2.0''"
  shows \<open>command_text number_text (SetInterval 2) = ''{"cmd":"set_interval","seconds":2.0}'' \<and>
         Encode number_text (SetInterval 2) =
           [0x7B, 0x22, 0x63, 0x6D, 0x64, 0x22, 0x3A, 0x22, 0x73, 0x65, 0x74, 0x5F, 0x69, 0x6E,
            0x74, 0x65, 0x72, 0x76, 0x61, 0x6C, 0x22, 0x2C, 0x22, 0x73, 0x65, 0x63, 0x6F, 0x6E,
            0x64, 0x73, 0x22, 0x3A, 0x32, 0x2E, 0x30, 0x7D] \<and>
         command_text number_text Capture = ''{"cmd":"capture"}'' \<and>
         command_text number_text (SetInterval x) =
           ''{"cmd":"set_interval","seconds":'' @ number_text x @ ''}'' \<and>
         command_text number_text ListSensors = ''{"cmd":"list_sensors"}'' \<and>
         command_text number_text (SetConfidence x) =
           ''{"cmd":"set_conf","conf":'' @ number_text x @ ''}'' \<and>
         command_text number_text (ToggleDepthInput True) =
           ''{"cmd":"toggle_depth_input","enabled":true}'' \<and>
         command_text number_text (ToggleDepthInput False) =
           ''{"cmd":"toggle_depth_input","enabled":false}'' \<and>
         command_text number_text Shutdown = ''{"cmd":"shutdown"}'' \<and>
         (SetIp N (TargetHost s) \<and>
          (SendSocket s = Some h \<or> SendSocket s = None \<and> BuildSendSocket N = Some h) \<and>
          TCHARToUTF8 N (command_text number_text c) = Encode number_text c \<longrightarrow>
            SendToCalls (snd (snd (SendJsonString N (command_text number_text c) (s, w)))) =
              SendToCalls w @ [(h, Encode number_text c, TargetHost s, TargetPort s)])\<close>
proof -
  have texts: \<open>command_text number_text (SetInterval 2) = ''{"cmd":"set_interval","seconds":2.0}'' \<and>
         command_text number_text Capture = ''{"cmd":"capture"}'' \<and>
         command_text number_text (SetInterval x) =
           ''{"cmd":"set_interval","seconds":'' @ number_text x @ ''}'' \<and>
         command_text number_text ListSensors = ''{"cmd":"list_sensors"}'' \<and>
         command_text number_text (SetConfidence x) =
           ''{"cmd":"set_conf","conf":'' @ number_text x @ ''}'' \<and>
         command_text number_text (ToggleDepthInput True) =
           ''{"cmd":"toggle_depth_input","enabled":true}'' \<and>
         command_text number_text (ToggleDepthInput False) =
           ''{"cmd":"toggle_depth_input","enabled":false}'' \<and>
         command_text number_text Shutdown = ''{"cmd":"shutdown"}''\<close>
    using two by (simp add: command_text_def field_text_def)
  then have bytes: "Encode number_text (SetInterval 2) =
           [0x7B, 0x22, 0x63, 0x6D, 0x64, 0x22, 0x3A, 0x22, 0x73, 0x65, 0x74, 0x5F, 0x69, 0x6E,
            0x74, 0x65, 0x72, 0x76, 0x61, 0x6C, 0x22, 0x2C, 0x22, 0x73, 0x65, 0x63, 0x6F, 0x6E,
            0x64, 0x73, 0x22, 0x3A, 0x32, 0x2E, 0x30, 0x7D]"
    by (simp add: Encode_def)
  have sent: "SendToCalls (snd (snd (SendJsonString N (command_text number_text c) (s, w)))) =
      SendToCalls w @ [(h, Encode number_text c, TargetHost s, TargetPort s)]"
    if "SetIp N (TargetHost s)"
      and "SendSocket s = Some h \<or> SendSocket s = None \<and> BuildSendSocket N = Some h"
      and "TCHARToUTF8 N (command_text number_text c) = Encode number_text c"
    using that
    by (cases "SendSocket s")
      (auto simp add: SendJsonString_connected SendJsonString_unconnected split: option.splits)
  from texts bytes sent show ?thesis by blast
qed

theorem C6_encode_commands_witness:
  "sample_number_text 2 = ''2.0'' \<and>
   command_text sample_number_text (SetInterval 2) = set_interval_text \<and>
   TCHARToUTF8 sample_net (command_text sample_number_text (SetInterval 2)) =
     Encode sample_number_text (SetInterval 2) \<and>
   SendToCalls (snd (snd (SendJsonString sample_net
       (command_text sample_number_text (SetInterval 2)) (sender_init, world_init)))) =
     [(2,
       [0x7B, 0x22, 0x63, 0x6D, 0x64, 0x22, 0x3A, 0x22, 0x73, 0x65, 0x74, 0x5F, 0x69, 0x6E,
        0x74, 0x65, 0x72, 0x76, 0x61, 0x6C, 0x22, 0x2C, 0x22, 0x73, 0x65, 0x63, 0x6F, 0x6E,
        0x64, 0x73, 0x22, 0x3A, 0x32, 0x2E, 0x30, 0x7D],
       ''127.0.0.1'', 7780)]"
proof -
  have two: "sample_number_text 2 = ''2.0''"
    by (simp add: sample_number_text_def)
  have conv: "TCHARToUTF8 sample_net (command_text sample_number_text (SetInterval 2)) =
     Encode sample_number_text (SetInterval 2)"
    by (simp add: sample_net_def Encode_def)
  note th = C6_encode_commands
    [where number_text = sample_number_text and N = sample_net and s = sender_init and h = 2
      and c = "SetInterval 2" and w = world_init and x = 2, OF two]
  from th have \<open>command_text sample_number_text (SetInterval 2) =
      ''{"cmd":"set_interval","seconds":2.0}''\<close>
    by blast
  then have wire: "command_text sample_number_text (SetInterval 2) = set_interval_text"
    by (simp add: set_interval_text_def)
  from th have bytes: "Encode sample_number_text (SetInterval 2) =
       [0x7B, 0x22, 0x63, 0x6D, 0x64, 0x22, 0x3A, 0x22, 0x73, 0x65, 0x74, 0x5F, 0x69, 0x6E,
        0x74, 0x65, 0x72, 0x76, 0x61, 0x6C, 0x22, 0x2C, 0x22, 0x73, 0x65, 0x63, 0x6F, 0x6E,
        0x64, 0x73, 0x22, 0x3A, 0x32, 0x2E, 0x30, 0x7D]"
    by blast
  have pre: "SetIp sample_net (TargetHost sender_init) \<and>
      (SendSocket sender_init = Some 2 \<or>
       SendSocket sender_init = None \<and> BuildSendSocket sample_net = Some 2)"
    using sender_init_fields sample_net_fields by simp
  from th conv pre
  have "SendToCalls (snd (snd (SendJsonString sample_net
       (command_text sample_number_text (SetInterval 2)) (sender_init, world_init)))) =
     SendToCalls world_init @
       [(2, Encode sample_number_text (SetInterval 2), TargetHost sender_init,
         TargetPort sender_init)]"
    by blast
  then have calls: "SendToCalls (snd (snd (SendJsonString sample_net
       (command_text sample_number_text (SetInterval 2)) (sender_init, world_init)))) =
     [(2,
       [0x7B, 0x22, 0x63, 0x6D, 0x64, 0x22, 0x3A, 0x22, 0x73, 0x65, 0x74, 0x5F, 0x69, 0x6E,
        0x74, 0x65, 0x72, 0x76, 0x61, 0x6C, 0x22, 0x2C, 0x22, 0x73, 0x65, 0x63, 0x6F, 0x6E,
        0x64, 0x73, 0x22, 0x3A, 0x32, 0x2E, 0x30, 0x7D],
       ''127.0.0.1'', 7780)]"
    using sender_init_fields by (simp add: bytes world_init_def)
  from two wire conv calls show ?thesis by blast
qed

end
